theory Spec2Isabelle
  imports Complex_Main "HOL-Library.Sublist"
begin

section \<open>The instrument protocol engine of instrument_protocol.py\<close>

text \<open>
  A shallow embedding of \<^verbatim>\<open>src/instrument_protocol.py\<close>. Every method of the
  protocol classes becomes a function that takes the object (a record of its attributes
  together with the part of the outside world the method touches) and returns the result
  and the updated object. An exception is the left summand of the result.
\<close>

subsection \<open>Values, errors, collaborators\<close>

text \<open>Plain Python values that the code stores and passes around (no floats).\<close>

datatype pyval = PyNone | PyBool bool | PyInt int | PyStr string

text \<open>
  The two members of \<^verbatim>\<open>InstErrorCode\<close> the source mentions (the enumeration itself
  lives in \<^verbatim>\<open>ion.services.mi.common\<close>).
\<close>

datatype InstErrorCode = OK | BAD_DRIVER_COMMAND

text \<open>
  The exceptions the code raises itself, and the two the interpreter raises on a missing
  dictionary key and on an attribute that the receiving object does not have.
\<close>

datatype error =
    InstrumentConnectionException
  | InstrumentTimeoutException
  | InstrumentProtocolException InstErrorCode
  | KeyError string
  | AttributeError string

text \<open>
  Modelled from the spec: the transport collaborators \<^verbatim>\<open>EthernetDeviceLogger\<close> and
  \<^verbatim>\<open>LoggerClient\<close> of \<^verbatim>\<open>ion.services.mi.logger_process\<close>, which are not part
  of the source. The spec gives the handle \<^verbatim>\<open>launch_process()\<close>, \<^verbatim>\<open>get_pid()\<close>
  and \<^verbatim>\<open>stop()\<close>, and the client \<^verbatim>\<open>send(bytes)\<close> and the registration of a
  data-arrival callback. The handle keeps the constructor arguments and the pid of the
  transport process (none while no process is registered); the client keeps its endpoint
  and whether a callback is registered.
\<close>

record EthernetDeviceLogger =
  device_addr :: pyval
  device_port :: pyval
  logger_server_port :: pyval
  write_delay :: int
  pid :: "nat option"

record LoggerClient =
  server_addr :: pyval
  server_port :: pyval
  callback_registered :: bool

definition get_pid :: "EthernetDeviceLogger \<Rightarrow> nat option" where
  "get_pid lg = pid lg"

text \<open>\<^verbatim>\<open>launch_process\<close> starts the transport process; the system gives it the pid \<open>p\<close>.\<close>

definition launch_process :: "nat \<Rightarrow> EthernetDeviceLogger \<Rightarrow> EthernetDeviceLogger" where
  "launch_process p lg = lg\<lparr>pid := Some p\<rparr>"

definition init_comms :: "LoggerClient \<Rightarrow> LoggerClient" where
  "init_comms c = c\<lparr>callback_registered := True\<rparr>"

subsection \<open>ParameterDictVal\<close>

text \<open>
  The regular-expression engine is outside the source: the compiled pattern is the field
  \<open>regex\<close>, a function from the input to the match object (its groups) or to nothing,
  as \<^verbatim>\<open>re.match\<close> returns a match object or \<^verbatim>\<open>None\<close>. A match object is always
  true in a condition.
\<close>

type_synonym match = "string list"

record ParameterDictVal =
  name :: string
  pattern :: string
  regex :: "string \<Rightarrow> match option"
  f_getval :: "match \<Rightarrow> pyval"
  f_format :: "pyval \<Rightarrow> string"
  pvalue :: pyval

definition ParameterDictVal_init ::
  "string \<Rightarrow> string \<Rightarrow> (string \<Rightarrow> match option) \<Rightarrow> (match \<Rightarrow> pyval) \<Rightarrow> (pyval \<Rightarrow> string)
     \<Rightarrow> pyval \<Rightarrow> ParameterDictVal" where
  "ParameterDictVal_init n p compiled getval format v =
     \<lparr>name = n, pattern = p, regex = compiled, f_getval = getval, f_format = format,
      pvalue = v\<rparr>"

text \<open>
  \<^verbatim>\<open>update\<close> returns the name (a string) or \<^verbatim>\<open>False\<close>, together with the
  descriptor after the call.
\<close>

definition update :: "ParameterDictVal \<Rightarrow> string \<Rightarrow> pyval \<times> ParameterDictVal" where
  "update d input =
     (case regex d input of
        Some m \<Rightarrow> (PyStr (name d), d\<lparr>pvalue := f_getval d m\<rparr>)
      | None \<Rightarrow> (PyBool False, d))"

subsection \<open>The protocol object\<close>

text \<open>
  What the dictionary \<^verbatim>\<open>_parameters\<close> holds under a name: Python does not type the
  entries, and the code stores both descriptors and plain values there.
\<close>

datatype param_entry = Descriptor ParameterDictVal | Plain pyval

text \<open>The effects on the outside world, in the order in which they happen.\<close>

datatype io_event =
    WakeSignal          \<comment> \<open>one call of \<^verbatim>\<open>_send_wakeup\<close>\<close>
  | Sent string         \<comment> \<open>\<^verbatim>\<open>_logger_client.send\<close> of these bytes\<close>
  | Slept rat           \<comment> \<open>\<^verbatim>\<open>time.sleep\<close> of so many seconds\<close>

type_synonym builder = "string \<Rightarrow> pyval list \<Rightarrow> string"
type_synonym responder = "string \<Rightarrow> string \<Rightarrow> pyval"

text \<open>
  The attributes of \<^verbatim>\<open>InstrumentProtocol\<close> and \<^verbatim>\<open>CommandResponseInstrumentProtocol\<close>,
  and the outside world as the methods see it:
  \<^item> \<open>prompts\<close> is the list \<^verbatim>\<open>self.prompts.list()\<close> yields (\<^verbatim>\<open>BaseEnum\<close> is not part
    of the source);
  \<^item> \<open>dir_self\<close> is the list of attribute names \<^verbatim>\<open>dir(self)\<close> yields; it depends on the
    concrete subclass;
  \<^item> \<open>now\<close> is the clock \<^verbatim>\<open>time.time()\<close> reads, in seconds;
  \<^item> \<open>slept\<close> counts the suspensions so far, and \<open>lag\<close> is the environment's choice
    of how much longer than asked each suspension lasts, up to the next reading of the
    clock: suspension number \<open>n\<close> with \<open>lag n = (a, b)\<close> overruns by
    \<open>(a + 1) / (b + 1)\<close> seconds, which is any positive amount and never zero;
  \<^item> \<open>incoming\<close> is what the transport will deliver through \<^verbatim>\<open>_got_data\<close>: the
    calling flow gives way only while it sleeps, so one chunk (possibly empty) arrives
    during each suspension made while the client has the callback registered, and nothing
    arrives once the list is used up;
  \<^item> \<open>io_log\<close> records the wake signals, transmissions and suspensions so far.
\<close>

record protocol =
  logger :: "EthernetDeviceLogger option"
  logger_client :: "LoggerClient option"
  logger_popen :: "nat option"
  eoln :: string
  prompts :: "string list"
  linebuf :: string
  promptbuf :: string
  build_handlers :: "string \<rightharpoonup> builder"
  response_handlers :: "string \<rightharpoonup> responder"
  parameters :: "string \<rightharpoonup> param_entry"
  dir_self :: "string list"
  now :: rat
  slept :: nat
  lag :: "nat \<Rightarrow> nat \<times> nat"
  incoming :: "string list"
  io_log :: "io_event list"

text \<open>
  The names that the two classes and their constructors define, in the order of
  \<^verbatim>\<open>dir\<close> (sorted). The names every Python object has (all of the form
  \<^verbatim>\<open>__x__\<close>) are left out.
\<close>

definition CommandResponseInstrumentProtocol_dir :: "string list" where
  "CommandResponseInstrumentProtocol_dir =
     [''_add_build_handler'', ''_add_param_dict'', ''_add_response_handler'',
      ''_build_handlers'', ''_build_simple_command'', ''_datalines'', ''_do_cmd_no_resp'',
      ''_do_cmd_resp'', ''_float_to_string'', ''_format_param_dict'', ''_fsm'',
      ''_get_config_param_dict'', ''_get_param_dict'', ''_get_param_dict_names'',
      ''_get_response'', ''_got_data'', ''_int_to_string'', ''_linebuf'', ''_logger'',
      ''_logger_client'', ''_logger_popen'', ''_parameters'', ''_promptbuf'',
      ''_response_handlers'', ''_send_wakeup'', ''_set_param_dict'', ''_update_param_dict'',
      ''_wakeup'', ''announce_to_driver'', ''attach'', ''configure'', ''connect'', ''detach'',
      ''disconnect'', ''eoln'', ''execute'', ''execute_direct'', ''get'',
      ''get_capabilities'', ''get_current_state'', ''get_resource_commands'',
      ''get_resource_params'', ''initialize'', ''prompts'', ''reset'', ''send_event'',
      ''set'']"

text \<open>
  \<^verbatim>\<open>CommandResponseInstrumentProtocol.__init__(callback, prompts, newline)\<close>, at the
  time \<open>t\<close>, with the transport about to deliver \<open>inc\<close> and the suspensions going to
  overrun as \<open>lg\<close> says.
\<close>

definition CommandResponseInstrumentProtocol_init ::
  "string list \<Rightarrow> string \<Rightarrow> rat \<Rightarrow> string list \<Rightarrow> (nat \<Rightarrow> nat \<times> nat) \<Rightarrow> protocol" where
  "CommandResponseInstrumentProtocol_init ps newline t inc lg =
     \<lparr>logger = None, logger_client = None, logger_popen = None,
      eoln = newline, prompts = ps, linebuf = [], promptbuf = [],
      build_handlers = Map.empty, response_handlers = Map.empty, parameters = Map.empty,
      dir_self = CommandResponseInstrumentProtocol_dir,
      now = t, slept = 0, lag = lg, incoming = inc, io_log = []\<rparr>"

subsection \<open>Connection interface\<close>

definition initialize :: "protocol \<Rightarrow> InstErrorCode \<times> protocol" where
  "initialize s = (OK, s\<lparr>logger := None, logger_client := None\<rparr>)"

text \<open>\<^verbatim>\<open>config[key]\<close>: a missing key raises \<^verbatim>\<open>KeyError\<close>.\<close>

definition getitem :: "(string \<rightharpoonup> pyval) \<Rightarrow> string \<Rightarrow> error + pyval" where
  "getitem config k = (case config k of None \<Rightarrow> Inl (KeyError k) | Some v \<Rightarrow> Inr v)"

text \<open>
  The four look-ups and the two constructor calls that both Ethernet branches of
  \<^verbatim>\<open>configure\<close> make, with the write delay \<open>wd\<close> (milliseconds) of the branch.
\<close>

definition build_ethernet :: "int \<Rightarrow> (string \<rightharpoonup> pyval) \<Rightarrow> protocol \<Rightarrow> error + protocol" where
  "build_ethernet wd config s =
     (case getitem config ''device_addr'' of Inl e \<Rightarrow> Inl e | Inr da \<Rightarrow>
     (case getitem config ''device_port'' of Inl e \<Rightarrow> Inl e | Inr dp \<Rightarrow>
     (case getitem config ''server_addr'' of Inl e \<Rightarrow> Inl e | Inr sa \<Rightarrow>
     (case getitem config ''server_port'' of Inl e \<Rightarrow> Inl e | Inr sp \<Rightarrow>
        Inr (s\<lparr>logger := Some \<lparr>device_addr = da, device_port = dp, logger_server_port = sp,
                                write_delay = wd, pid = None\<rparr>,
               logger_client := Some \<lparr>server_addr = sa, server_port = sp,
                                       callback_registered = False\<rparr>\<rparr>)))))"

text \<open>
  \<^verbatim>\<open>configure\<close>: the test for \<^verbatim>\<open>ETHERNET\<close> is an \<^verbatim>\<open>if\<close> of its own; the chain
  \<^verbatim>\<open>if SLOW_ETHERNET / elif SERIAL / else\<close> follows it and is run in every case.
\<close>

definition configure :: "protocol \<Rightarrow> (string \<rightharpoonup> pyval) \<Rightarrow> (error + InstErrorCode) \<times> protocol" where
  "configure s config =
     (case getitem config ''method'' of
        Inl e \<Rightarrow> (Inl e, s)
      | Inr method \<Rightarrow>
          (case (if method = PyStr ''ethernet'' then build_ethernet 0 config s else Inr s) of
             Inl e \<Rightarrow> (Inl e, s)
           | Inr s1 \<Rightarrow>
               if method = PyStr ''slow_ethernet'' then
                 (case build_ethernet 100 config s1 of
                    Inl e \<Rightarrow> (Inl e, s1)
                  | Inr s2 \<Rightarrow> (Inr OK, s2))
               else if method = PyStr ''serial'' then (Inl InstrumentConnectionException, s1)
               else (Inl InstrumentConnectionException, s1)))"

subsection \<open>Buffers, clock and transport\<close>

text \<open>\<^verbatim>\<open>CommandResponseInstrumentProtocol._got_data\<close>: both buffers take the data.\<close>

definition got_data :: "protocol \<Rightarrow> string \<Rightarrow> protocol" where
  "got_data s data = s\<lparr>linebuf := linebuf s @ data, promptbuf := promptbuf s @ data\<rparr>"

text \<open>By how much the next suspension overruns: a positive number of seconds.\<close>

definition overrun :: "protocol \<Rightarrow> rat" where
  "overrun s = (case lag s (slept s) of (a, b) \<Rightarrow> (of_nat a + 1) / (of_nat b + 1))"

text \<open>
  The transport client calls \<^verbatim>\<open>_got_data\<close> only once \<^verbatim>\<open>init_comms\<close> has given
  it the callback.
\<close>

definition receiving :: "protocol \<Rightarrow> bool" where
  "receiving s = (case logger_client s of None \<Rightarrow> False | Some c \<Rightarrow> callback_registered c)"

text \<open>
  \<^verbatim>\<open>time.sleep(secs)\<close>: when the clock is read next it is later by the time asked
  for and by the overrun, and meanwhile the transport has delivered its next chunk through
  \<^verbatim>\<open>_got_data\<close>, if the callback is registered.
\<close>

definition time_sleep :: "rat \<Rightarrow> protocol \<Rightarrow> protocol" where
  "time_sleep secs s =
     (let s1 = s\<lparr>now := now s + secs + overrun s, slept := Suc (slept s),
                 io_log := io_log s @ [Slept secs]\<rparr>
      in if receiving s1 then
           (case incoming s1 of
              [] \<Rightarrow> s1
            | data # rest \<Rightarrow> got_data (s1\<lparr>incoming := rest\<rparr>) data)
         else s1)"

text \<open>
  \<^verbatim>\<open>self._logger_client.send(cmd_line)\<close>; without a client the attribute look-up on
  \<^verbatim>\<open>None\<close> raises.
\<close>

definition client_send :: "protocol \<Rightarrow> string \<Rightarrow> error + protocol" where
  "client_send s bytes =
     (case logger_client s of
        None \<Rightarrow> Inl (AttributeError ''send'')
      | Some c \<Rightarrow> Inr (s\<lparr>io_log := io_log s @ [Sent bytes]\<rparr>))"

definition attach :: "protocol \<Rightarrow> (error + InstErrorCode) \<times> protocol" where
  "attach s =
     (case logger_client s of
        None \<Rightarrow> (Inl (AttributeError ''init_comms''), s)
      | Some c \<Rightarrow> (Inr OK, s\<lparr>logger_client := Some (init_comms c)\<rparr>))"

text \<open>
  \<^verbatim>\<open>connect\<close>; \<open>p\<close> is the pid that the system gives to the launched process.
  \<^verbatim>\<open>not logger_pid\<close> holds for \<^verbatim>\<open>None\<close> and for 0. The result of
  \<^verbatim>\<open>os.wait()\<close> is only logged and its exceptions are caught; the result of
  \<^verbatim>\<open>attach()\<close> is dropped. The value returned is the variable \<^verbatim>\<open>logger_pid\<close>.
\<close>

definition connect :: "nat \<Rightarrow> protocol \<Rightarrow> (error + nat option) \<times> protocol" where
  "connect p s =
     (case logger s of
        None \<Rightarrow> (Inl (AttributeError ''get_pid''), s)
      | Some lg \<Rightarrow>
          (let logger_pid = get_pid lg in
           if logger_pid = None \<or> logger_pid = Some 0 then
             (let s1 = s\<lparr>logger := Some (launch_process p lg), logger_popen := Some p\<rparr>;
                  s2 = time_sleep (1 / 5) s1;
                  s3 = time_sleep 1 s2
              in case attach s3 of
                   (Inl e, s4) \<Rightarrow> (Inl e, s4)
                 | (Inr ok, s4) \<Rightarrow> (Inr logger_pid, s4))
           else (Inl InstrumentConnectionException, s)))"

subsection \<open>Resource queries and the script variant\<close>

text \<open>\<^verbatim>\<open>[cmd for cmd in dir(self) if cmd.startswith('execute_')]\<close>\<close>

definition get_resource_commands :: "protocol \<Rightarrow> string list" where
  "get_resource_commands s = filter (\<lambda>cmd. prefix ''execute_'' cmd) (dir_self s)"

text \<open>
  \<^verbatim>\<open>ScriptInstrumentProtocol.run_script\<close>: the body of the method is its docstring and
  nothing else, so the call returns \<^verbatim>\<open>None\<close> and has no effect.
\<close>

definition run_script :: "protocol \<Rightarrow> string \<Rightarrow> pyval \<times> protocol" where
  "run_script s script = (PyNone, s)"

subsection \<open>Handler tables and the parameter dictionary\<close>

definition add_build_handler :: "protocol \<Rightarrow> string \<Rightarrow> builder \<Rightarrow> protocol" where
  "add_build_handler s cmd func = s\<lparr>build_handlers := (build_handlers s)(cmd \<mapsto> func)\<rparr>"

definition add_response_handler :: "protocol \<Rightarrow> string \<Rightarrow> responder \<Rightarrow> protocol" where
  "add_response_handler s cmd func =
     s\<lparr>response_handlers := (response_handlers s)(cmd \<mapsto> func)\<rparr>"

definition add_param_dict ::
  "protocol \<Rightarrow> string \<Rightarrow> string \<Rightarrow> (string \<Rightarrow> match option) \<Rightarrow> (match \<Rightarrow> pyval)
     \<Rightarrow> (pyval \<Rightarrow> string) \<Rightarrow> pyval \<Rightarrow> protocol" where
  "add_param_dict s n p compiled getval format v =
     s\<lparr>parameters := (parameters s)(n \<mapsto> Descriptor (ParameterDictVal_init n p compiled getval format v))\<rparr>"

text \<open>
  \<^verbatim>\<open>self._parameters[name].value\<close>: a missing name raises \<^verbatim>\<open>KeyError\<close>, and an
  entry that is a plain value has no attribute \<^verbatim>\<open>value\<close>.
\<close>

definition get_param_dict :: "protocol \<Rightarrow> string \<Rightarrow> error + pyval" where
  "get_param_dict s n =
     (case parameters s n of
        None \<Rightarrow> Inl (KeyError n)
      | Some (Descriptor d) \<Rightarrow> Inr (pvalue d)
      | Some (Plain v) \<Rightarrow> Inl (AttributeError ''value''))"

definition get_param_dict_names :: "protocol \<Rightarrow> string set" where
  "get_param_dict_names s = dom (parameters s)"

text \<open>\<^verbatim>\<open>self._parameters[name] = value\<close>: the entry itself becomes the value.\<close>

definition set_param_dict :: "protocol \<Rightarrow> string \<Rightarrow> pyval \<Rightarrow> protocol" where
  "set_param_dict s n v = s\<lparr>parameters := (parameters s)(n \<mapsto> Plain v)\<rparr>"

definition build_simple_command :: "protocol \<Rightarrow> string \<Rightarrow> string" where
  "build_simple_command s command = command @ eoln s"

subsection \<open>Wakeup and response helpers\<close>

text \<open>
  \<^verbatim>\<open>_send_wakeup\<close> does nothing in this class (a subclass sends what wakes its
  device); the call is recorded.
\<close>

definition send_wakeup :: "protocol \<Rightarrow> protocol" where
  "send_wakeup s = s\<lparr>io_log := io_log s @ [WakeSignal]\<rparr>"

text \<open>
  \<^verbatim>\<open>for item in items: if buf.endswith(item): return item\<close>: the first item, in the
  order of the list, that is a suffix of the buffer.
\<close>

definition match_prompt :: "string list \<Rightarrow> string \<Rightarrow> string option" where
  "match_prompt items buf = find (\<lambda>item. suffix item buf) items"

text \<open>
  The \<^verbatim>\<open>while True\<close> of \<^verbatim>\<open>_wakeup\<close>, with \<open>deadline\<close> standing for
  \<^verbatim>\<open>starttime + timeout\<close>. Every pass sleeps one second and more, so the loop ends.
\<close>

function wakeup_loop :: "rat \<Rightarrow> protocol \<Rightarrow> (error + string) \<times> protocol" where
  "wakeup_loop deadline s =
     (let s1 = time_sleep 1 (send_wakeup s)
      in case match_prompt (prompts s1) (promptbuf s1) of
           Some item \<Rightarrow> (Inr item, s1)
         | None \<Rightarrow>
             if now s1 > deadline then (Inl InstrumentTimeoutException, s1)
             else wakeup_loop deadline s1)"
  by pat_completeness auto
termination
proof (relation "measure (\<lambda>(deadline, s). nat \<lceil>deadline - now s\<rceil>)")
  show "wf (measure (\<lambda>(deadline, s). nat \<lceil>deadline - now s\<rceil>))"
    by simp
next
  fix deadline :: rat and s x :: protocol
  assume x: "x = time_sleep 1 (send_wakeup s)" and within: "\<not> deadline < now x"
  have "0 < overrun (send_wakeup s)"
    by (simp add: overrun_def split: prod.splits)
  moreover have "now x = now s + 1 + overrun (send_wakeup s)"
    by (simp add: x time_sleep_def send_wakeup_def got_data_def Let_def split: list.splits)
  ultimately have later: "now s + 1 \<le> now x"
    by simp
  then have "deadline - now x \<le> (deadline - now s) - 1"
    by simp
  then have "\<lceil>deadline - now x\<rceil> \<le> \<lceil>(deadline - now s) - 1\<rceil>"
    by (rule ceiling_mono)
  moreover have "0 < \<lceil>deadline - now s\<rceil>"
    using later within by (simp add: ceiling_less_iff)
  ultimately have "nat \<lceil>deadline - now x\<rceil> < nat \<lceil>deadline - now s\<rceil>"
    by simp
  then show "((deadline, x), (deadline, s)) \<in> measure (\<lambda>(deadline, s). nat \<lceil>deadline - now s\<rceil>)"
    by simp
qed

declare wakeup_loop.simps [simp del]

definition wakeup :: "protocol \<Rightarrow> rat \<Rightarrow> (error + string) \<times> protocol" where
  "wakeup s timeout =
     (let s0 = s\<lparr>promptbuf := []\<rparr>; starttime = now s0
      in wakeup_loop (starttime + timeout) s0)"

text \<open>
  The \<^verbatim>\<open>for\<close> of \<^verbatim>\<open>_get_response\<close>: an item that is not a suffix of the prompt
  buffer costs a sleep of 0.1 s, during which the buffers may grow, before the next item
  is tried.
\<close>

fun poll_prompts :: "string list \<Rightarrow> protocol \<Rightarrow> string option \<times> protocol" where
  "poll_prompts [] s = (None, s)"
| "poll_prompts (item # items) s =
     (if suffix item (promptbuf s) then (Some item, s)
      else poll_prompts items (time_sleep (1 / 10) s))"

text \<open>
  The \<^verbatim>\<open>while True\<close> of \<^verbatim>\<open>_get_response\<close>. With an empty prompt list the
  \<^verbatim>\<open>for\<close> does nothing and no pass suspends: the loop spins, reading the clock,
  until the clock is beyond the deadline, and raises then. The spin is one step here, which
  leaves the clock just beyond the deadline. Not returning would be the value \<open>None\<close>.
\<close>

partial_function (option) get_response_loop ::
  "string list \<Rightarrow> rat \<Rightarrow> protocol \<Rightarrow> ((error + string \<times> string) \<times> protocol) option" where
  "get_response_loop prompt_list deadline s =
     (if prompt_list = [] then
        Some (Inl InstrumentTimeoutException,
              if now s > deadline then s else s\<lparr>now := deadline + overrun s\<rparr>)
      else
        (case poll_prompts prompt_list s of
           (Some item, s1) \<Rightarrow> Some (Inr (item, linebuf s1), s1)
         | (None, s1) \<Rightarrow>
             if now s1 > deadline then Some (Inl InstrumentTimeoutException, s1)
             else get_response_loop prompt_list deadline s1))"

text \<open>
  \<^verbatim>\<open>_get_response(timeout, expected_prompt)\<close>; the expected prompt is a string or
  \<^verbatim>\<open>None\<close>, so the assertion on its type holds.
\<close>

definition get_response ::
  "protocol \<Rightarrow> rat \<Rightarrow> string option \<Rightarrow> ((error + string \<times> string) \<times> protocol) option" where
  "get_response s timeout expected_prompt =
     (let starttime = now s;
          prompt_list = (case expected_prompt of None \<Rightarrow> prompts s | Some e \<Rightarrow> [e])
      in get_response_loop prompt_list (starttime + timeout) s)"

subsection \<open>Command and response\<close>

text \<open>
  \<^verbatim>\<open>_do_cmd_resp(cmd, *args, timeout=10, expected_prompt=None)\<close>. A registered
  builder is a function, which is true in a condition, so \<^verbatim>\<open>not build_handler\<close>
  holds exactly when the table has no entry for the command.
\<close>

definition do_cmd_resp ::
  "protocol \<Rightarrow> string \<Rightarrow> pyval list \<Rightarrow> rat \<Rightarrow> string option
     \<Rightarrow> ((error + pyval) \<times> protocol) option" where
  "do_cmd_resp s cmd args timeout expected_prompt =
     (case build_handlers s cmd of
        None \<Rightarrow> Some (Inl (InstrumentProtocolException BAD_DRIVER_COMMAND), s)
      | Some build_handler \<Rightarrow>
          (let cmd_line = build_handler cmd args in
           case wakeup s timeout of
             (Inl e, s1) \<Rightarrow> Some (Inl e, s1)
           | (Inr prompt, s1) \<Rightarrow>
               (let s2 = s1\<lparr>linebuf := [], promptbuf := []\<rparr> in
                case client_send s2 cmd_line of
                  Inl e \<Rightarrow> Some (Inl e, s2)
                | Inr s3 \<Rightarrow>
                    (case get_response s3 timeout expected_prompt of
                       None \<Rightarrow> None
                     | Some (Inl e, s4) \<Rightarrow> Some (Inl e, s4)
                     | Some (Inr (prompt, result), s4) \<Rightarrow>
                         (case response_handlers s4 cmd of
                            None \<Rightarrow> Some (Inr PyNone, s4)
                          | Some resp_handler \<Rightarrow>
                              Some (Inr (resp_handler result prompt), s4))))))"

text \<open>
  \<^verbatim>\<open>_do_cmd_no_resp(cmd, *args, timeout=10)\<close>: after the wakeup the code assigns the
  empty string to \<^verbatim>\<open>_linebuf\<close> only.
\<close>

definition do_cmd_no_resp ::
  "protocol \<Rightarrow> string \<Rightarrow> pyval list \<Rightarrow> rat \<Rightarrow> (error + InstErrorCode) \<times> protocol" where
  "do_cmd_no_resp s cmd args timeout =
     (case build_handlers s cmd of
        None \<Rightarrow> (Inl (InstrumentProtocolException BAD_DRIVER_COMMAND), s)
      | Some build_handler \<Rightarrow>
          (let cmd_line = build_handler cmd args in
           case wakeup s timeout of
             (Inl e, s1) \<Rightarrow> (Inl e, s1)
           | (Inr prompt, s1) \<Rightarrow>
               (let s2 = s1\<lparr>linebuf := []\<rparr> in
                case client_send s2 cmd_line of
                  Inl e \<Rightarrow> (Inl e, s2)
                | Inr s3 \<Rightarrow> (Inr OK, s3))))"

subsection \<open>Wake cycles\<close>

text \<open>
  One pass of the loop of \<^verbatim>\<open>_wakeup\<close> up to its checks: the wake signal and the
  sleep of one second, with its overrun. \<open>after_cycles k s\<close> is the object after the prompt buffer was
  cleared and \<open>k\<close> such passes were made, and \<open>prompt_after k s\<close> is what the search
  of pass \<open>k\<close> for a configured prompt at the end of the prompt buffer finds.
\<close>

definition wake_cycle :: "protocol \<Rightarrow> protocol" where
  "wake_cycle s = time_sleep 1 (send_wakeup s)"

definition after_cycles :: "nat \<Rightarrow> protocol \<Rightarrow> protocol" where
  "after_cycles k s = (wake_cycle ^^ k) (s\<lparr>promptbuf := []\<rparr>)"

definition prompt_after :: "nat \<Rightarrow> protocol \<Rightarrow> string option" where
  "prompt_after k s = match_prompt (prompts s) (promptbuf (after_cycles k s))"

text \<open>
  Pass \<open>k\<close> of the loop is made by the call \<^verbatim>\<open>_wakeup(timeout)\<close>: every pass
  before it left the loop neither through the \<^verbatim>\<open>return\<close> (no prompt was found) nor
  through the \<^verbatim>\<open>raise\<close> (the clock was not beyond \<^verbatim>\<open>starttime + timeout\<close>).
\<close>

definition cycle_is_run :: "protocol \<Rightarrow> rat \<Rightarrow> nat \<Rightarrow> bool" where
  "cycle_is_run s timeout k \<longleftrightarrow>
     0 < k \<and> (\<forall>j \<in> {1..<k}. prompt_after j s = None
                               \<and> \<not> now (after_cycles j s) > now s + timeout)"

subsection \<open>Example objects\<close>

text \<open>A configuration with the given method and all four endpoint keys.\<close>

definition example_config :: "string \<Rightarrow> (string \<rightharpoonup> pyval)" where
  "example_config m =
     [''method'' \<mapsto> PyStr m,
      ''device_addr'' \<mapsto> PyStr ''10.0.0.5'', ''device_port'' \<mapsto> PyInt 4001,
      ''server_addr'' \<mapsto> PyStr ''localhost'', ''server_port'' \<mapsto> PyInt 8888]"

text \<open>Every suspension overruns by one millisecond.\<close>

definition example_lag :: "nat \<Rightarrow> nat \<times> nat" where
  "example_lag n = (0, 999)"

text \<open>
  A protocol object with the prompts \<open>ps\<close>, created at time 0 with the transport about
  to deliver \<open>inc\<close>, and its transport handle and client in place: no transport process
  yet, and no callback registered.
\<close>

definition example_protocol :: "string list \<Rightarrow> string list \<Rightarrow> protocol" where
  "example_protocol ps inc =
     (CommandResponseInstrumentProtocol_init ps ''\<newline>'' 0 inc example_lag)
       \<lparr>logger := Some \<lparr>device_addr = PyStr ''10.0.0.5'', device_port = PyInt 4001,
                         logger_server_port = PyInt 8888, write_delay = 100, pid = None\<rparr>,
        logger_client := Some \<lparr>server_addr = PyStr ''localhost'', server_port = PyInt 8888,
                                callback_registered = False\<rparr>\<rparr>"

text \<open>
  The same object once connected: the transport process runs with the pid 4242, and the
  client has the callback.
\<close>

definition connected_protocol :: "string list \<Rightarrow> string list \<Rightarrow> protocol" where
  "connected_protocol ps inc =
     (example_protocol ps inc)
       \<lparr>logger := Some \<lparr>device_addr = PyStr ''10.0.0.5'', device_port = PyInt 4001,
                         logger_server_port = PyInt 8888, write_delay = 100,
                         pid = Some 4242\<rparr>,
        logger_client := Some \<lparr>server_addr = PyStr ''localhost'', server_port = PyInt 8888,
                                callback_registered = True\<rparr>,
        logger_popen := Some 4242\<rparr>"

text \<open>A builder that sends the command id and a newline, whatever the arguments.\<close>

definition example_builder :: builder where
  "example_builder cmd args = cmd @ ''\<newline>''"

text \<open>
  A descriptor for lines such as \<^verbatim>\<open>Vol: 150\<close>, standing for the pattern
  \<^verbatim>\<open>Vol: (.*)\<close>: the group runs from the label to the end of the line, the match
  object holds the whole match and the group, and the value is the text of the group.
\<close>

definition example_descriptor :: ParameterDictVal where
  "example_descriptor =
     ParameterDictVal_init ''vol'' ''Vol: (.*)''
       (\<lambda>t. if prefix ''Vol: '' t
            then (let g = takeWhile (\<lambda>c. c \<noteq> CHR 0x0A) (drop 5 t) in Some [''Vol: '' @ g, g])
            else None)
       (\<lambda>m. case m of [whole, g] \<Rightarrow> PyStr g | _ \<Rightarrow> PyNone)
       (\<lambda>v. case v of PyStr x \<Rightarrow> x | _ \<Rightarrow> [])
       PyNone"

section \<open>Properties\<close>

subsection \<open>The loop of the wakeup\<close>

lemma overrun_pos: "0 < overrun s"
  by (simp add: overrun_def split: prod.splits)

lemma now_wake_cycle: "now (wake_cycle s) = now s + 1 + overrun s"
  by (simp add: wake_cycle_def time_sleep_def send_wakeup_def got_data_def overrun_def Let_def
      split: list.splits)

lemma prompts_wake_cycle: "prompts (wake_cycle s) = prompts s"
  by (simp add: wake_cycle_def time_sleep_def send_wakeup_def got_data_def Let_def
      split: list.splits)

lemma receiving_wake_cycle: "receiving (wake_cycle s) = receiving s"
  by (simp add: wake_cycle_def time_sleep_def send_wakeup_def got_data_def receiving_def Let_def
      split: list.splits)

lemma promptbuf_wake_cycle:
  "promptbuf (wake_cycle s)
     = promptbuf s @ (if receiving s then concat (take 1 (incoming s)) else [])"
  by (simp add: wake_cycle_def time_sleep_def send_wakeup_def got_data_def receiving_def Let_def
      split: list.splits)

lemma incoming_wake_cycle:
  "incoming (wake_cycle s) = (if receiving s then drop 1 (incoming s) else incoming s)"
  by (simp add: wake_cycle_def time_sleep_def send_wakeup_def got_data_def receiving_def Let_def
      split: list.splits)

lemma wakeup_loop_unfold:
  "wakeup_loop deadline s =
     (case match_prompt (prompts s) (promptbuf (wake_cycle s)) of
        Some item \<Rightarrow> (Inr item, wake_cycle s)
      | None \<Rightarrow> if now (wake_cycle s) > deadline
                then (Inl InstrumentTimeoutException, wake_cycle s)
                else wakeup_loop deadline (wake_cycle s))"
  by (subst wakeup_loop.simps)
     (simp add: Let_def wake_cycle_def[symmetric] prompts_wake_cycle)

lemma funpow_wake_cycle:
  "promptbuf ((wake_cycle ^^ k) s)
     = promptbuf s @ (if receiving s then concat (take k (incoming s)) else [])
   \<and> incoming ((wake_cycle ^^ k) s) = (if receiving s then drop k (incoming s) else incoming s)
   \<and> receiving ((wake_cycle ^^ k) s) = receiving s
   \<and> prompts ((wake_cycle ^^ k) s) = prompts s"
proof (induction k arbitrary: s)
  case 0
  show ?case by simp
next
  case (Suc k)
  have "take (Suc k) (incoming s) = take 1 (incoming s) @ take k (drop 1 (incoming s))"
    by (cases "incoming s") simp_all
  then show ?case
    using Suc.IH [of "wake_cycle s"]
    by (simp add: funpow_swap1 promptbuf_wake_cycle incoming_wake_cycle receiving_wake_cycle
        prompts_wake_cycle)
qed

lemma wakeup_loop_passes:
  "\<exists>n. 0 < n
     \<and> snd (wakeup_loop deadline s) = (wake_cycle ^^ n) s
     \<and> (\<forall>j. 0 < j \<and> j < n \<longrightarrow>
            match_prompt (prompts s) (promptbuf ((wake_cycle ^^ j) s)) = None
            \<and> \<not> now ((wake_cycle ^^ j) s) > deadline)
     \<and> (case match_prompt (prompts s) (promptbuf ((wake_cycle ^^ n) s)) of
           Some item \<Rightarrow> fst (wakeup_loop deadline s) = Inr item
         | None \<Rightarrow> fst (wakeup_loop deadline s) = Inl InstrumentTimeoutException
                    \<and> now ((wake_cycle ^^ n) s) > deadline)"
proof (induction deadline s rule: wakeup_loop.induct)
  case (1 deadline s)
  show ?case
  proof (cases "match_prompt (prompts s) (promptbuf (wake_cycle s)) = None
                \<and> \<not> now (wake_cycle s) > deadline")
    case False
    then have "0 < (1::nat)
       \<and> snd (wakeup_loop deadline s) = (wake_cycle ^^ 1) s
       \<and> (\<forall>j. 0 < j \<and> j < (1::nat) \<longrightarrow>
            match_prompt (prompts s) (promptbuf ((wake_cycle ^^ j) s)) = None
            \<and> \<not> now ((wake_cycle ^^ j) s) > deadline)
       \<and> (case match_prompt (prompts s) (promptbuf ((wake_cycle ^^ 1) s)) of
           Some item \<Rightarrow> fst (wakeup_loop deadline s) = Inr item
         | None \<Rightarrow> fst (wakeup_loop deadline s) = Inl InstrumentTimeoutException
                    \<and> now ((wake_cycle ^^ 1) s) > deadline)"
      by (subst (1 2 3) wakeup_loop_unfold) (auto split: option.splits)
    then show ?thesis by blast
  next
    case True
    then have again: "wakeup_loop deadline s = wakeup_loop deadline (wake_cycle s)"
      by (subst wakeup_loop_unfold) simp
    have "\<exists>n. 0 < n
       \<and> snd (wakeup_loop deadline (wake_cycle s)) = (wake_cycle ^^ n) (wake_cycle s)
       \<and> (\<forall>j. 0 < j \<and> j < n \<longrightarrow>
            match_prompt (prompts (wake_cycle s)) (promptbuf ((wake_cycle ^^ j) (wake_cycle s))) = None
            \<and> \<not> now ((wake_cycle ^^ j) (wake_cycle s)) > deadline)
       \<and> (case match_prompt (prompts (wake_cycle s)) (promptbuf ((wake_cycle ^^ n) (wake_cycle s))) of
           Some item \<Rightarrow> fst (wakeup_loop deadline (wake_cycle s)) = Inr item
         | None \<Rightarrow> fst (wakeup_loop deadline (wake_cycle s)) = Inl InstrumentTimeoutException
                    \<and> now ((wake_cycle ^^ n) (wake_cycle s)) > deadline)"
    proof (rule "1.IH" [of "wake_cycle s", unfolded wake_cycle_def [symmetric]])
      show "wake_cycle s = wake_cycle s" ..
      show "match_prompt (prompts (wake_cycle s)) (promptbuf (wake_cycle s)) = None"
        using True by (simp add: prompts_wake_cycle)
      show "\<not> deadline < now (wake_cycle s)" using True by simp
    qed
    then obtain n where n: "0 < n"
      "snd (wakeup_loop deadline (wake_cycle s)) = (wake_cycle ^^ n) (wake_cycle s)"
      "\<forall>j. 0 < j \<and> j < n \<longrightarrow>
            match_prompt (prompts (wake_cycle s)) (promptbuf ((wake_cycle ^^ j) (wake_cycle s))) = None
            \<and> \<not> now ((wake_cycle ^^ j) (wake_cycle s)) > deadline"
      "case match_prompt (prompts (wake_cycle s)) (promptbuf ((wake_cycle ^^ n) (wake_cycle s))) of
           Some item \<Rightarrow> fst (wakeup_loop deadline (wake_cycle s)) = Inr item
         | None \<Rightarrow> fst (wakeup_loop deadline (wake_cycle s)) = Inl InstrumentTimeoutException
                    \<and> now ((wake_cycle ^^ n) (wake_cycle s)) > deadline"
      by blast
    have earlier: "\<forall>j. 0 < j \<and> j < Suc n \<longrightarrow>
            match_prompt (prompts s) (promptbuf ((wake_cycle ^^ j) s)) = None
            \<and> \<not> now ((wake_cycle ^^ j) s) > deadline"
    proof (intro allI impI)
      fix j :: nat assume j: "0 < j \<and> j < Suc n"
      show "match_prompt (prompts s) (promptbuf ((wake_cycle ^^ j) s)) = None
            \<and> \<not> now ((wake_cycle ^^ j) s) > deadline"
      proof (cases j)
        case 0
        with j show ?thesis by simp
      next
        case (Suc i)
        show ?thesis
        proof (cases "i = 0")
          case True
          with Suc \<open>match_prompt (prompts s) (promptbuf (wake_cycle s)) = None
                \<and> \<not> now (wake_cycle s) > deadline\<close> show ?thesis by simp
        next
          case False
          with Suc j have "0 < i \<and> i < n" by simp
          with n(3) have "match_prompt (prompts (wake_cycle s)) (promptbuf ((wake_cycle ^^ i) (wake_cycle s))) = None
            \<and> \<not> now ((wake_cycle ^^ i) (wake_cycle s)) > deadline" by blast
          with Suc show ?thesis by (simp add: funpow_swap1 prompts_wake_cycle)
        qed
      qed
    qed
    have "0 < Suc n
       \<and> snd (wakeup_loop deadline s) = (wake_cycle ^^ Suc n) s
       \<and> (\<forall>j. 0 < j \<and> j < Suc n \<longrightarrow>
            match_prompt (prompts s) (promptbuf ((wake_cycle ^^ j) s)) = None
            \<and> \<not> now ((wake_cycle ^^ j) s) > deadline)
       \<and> (case match_prompt (prompts s) (promptbuf ((wake_cycle ^^ Suc n) s)) of
           Some item \<Rightarrow> fst (wakeup_loop deadline s) = Inr item
         | None \<Rightarrow> fst (wakeup_loop deadline s) = Inl InstrumentTimeoutException
                    \<and> now ((wake_cycle ^^ Suc n) s) > deadline)"
      using n(2,4) earlier unfolding again
      by (auto simp add: funpow_swap1 prompts_wake_cycle split: option.splits)
    then show ?thesis by blast
  qed
qed

lemma cycle_is_run_iff:
  "cycle_is_run s timeout k \<longleftrightarrow>
     0 < k \<and> (\<forall>j. 0 < j \<and> j < k \<longrightarrow>
        match_prompt (prompts (s\<lparr>promptbuf := []\<rparr>))
          (promptbuf ((wake_cycle ^^ j) (s\<lparr>promptbuf := []\<rparr>))) = None
        \<and> \<not> now ((wake_cycle ^^ j) (s\<lparr>promptbuf := []\<rparr>)) > now s + timeout)"
  by (auto simp: cycle_is_run_def prompt_after_def after_cycles_def)

lemma now_after_cycles_Suc:
  "now (after_cycles (Suc n) s) = now (after_cycles n s) + 1 + overrun (after_cycles n s)"
  by (simp add: after_cycles_def now_wake_cycle)

lemma wakeup_passes:
  "\<exists>n. cycle_is_run s timeout n
     \<and> snd (wakeup s timeout) = after_cycles n s
     \<and> (case prompt_after n s of
           Some item \<Rightarrow> fst (wakeup s timeout) = Inr item
         | None \<Rightarrow> fst (wakeup s timeout) = Inl InstrumentTimeoutException
                    \<and> now (after_cycles n s) > now s + timeout)"
proof -
  have w: "wakeup s timeout = wakeup_loop (now s + timeout) (s\<lparr>promptbuf := []\<rparr>)"
    by (simp add: wakeup_def Let_def)
  from wakeup_loop_passes [of "now s + timeout" "s\<lparr>promptbuf := []\<rparr>"]
  obtain n where "0 < n"
    "snd (wakeup s timeout) = (wake_cycle ^^ n) (s\<lparr>promptbuf := []\<rparr>)"
    "\<forall>j. 0 < j \<and> j < n \<longrightarrow>
        match_prompt (prompts (s\<lparr>promptbuf := []\<rparr>))
          (promptbuf ((wake_cycle ^^ j) (s\<lparr>promptbuf := []\<rparr>))) = None
        \<and> \<not> now ((wake_cycle ^^ j) (s\<lparr>promptbuf := []\<rparr>)) > now s + timeout"
    "case match_prompt (prompts (s\<lparr>promptbuf := []\<rparr>))
            (promptbuf ((wake_cycle ^^ n) (s\<lparr>promptbuf := []\<rparr>))) of
       Some item \<Rightarrow> fst (wakeup s timeout) = Inr item
     | None \<Rightarrow> fst (wakeup s timeout) = Inl InstrumentTimeoutException
                \<and> now ((wake_cycle ^^ n) (s\<lparr>promptbuf := []\<rparr>)) > now s + timeout"
    unfolding w by blast
  then have "cycle_is_run s timeout n
     \<and> snd (wakeup s timeout) = after_cycles n s
     \<and> (case prompt_after n s of
           Some item \<Rightarrow> fst (wakeup s timeout) = Inr item
         | None \<Rightarrow> fst (wakeup s timeout) = Inl InstrumentTimeoutException
                    \<and> now (after_cycles n s) > now s + timeout)"
    unfolding cycle_is_run_iff
    by (simp add: prompt_after_def after_cycles_def split: option.splits)
  then show ?thesis by blast
qed

lemma example_protocol_fields:
  "prompts (example_protocol ps inc) = ps"
  "incoming (example_protocol ps inc) = inc"
  "now (example_protocol ps inc) = 0"
  "slept (example_protocol ps inc) = 0"
  "lag (example_protocol ps inc) = example_lag"
  "io_log (example_protocol ps inc) = []"
  "linebuf (example_protocol ps inc) = []"
  "promptbuf (example_protocol ps inc) = []"
  "build_handlers (example_protocol ps inc) = Map.empty"
  "receiving (example_protocol ps inc) = False"
  by (simp_all add: example_protocol_def CommandResponseInstrumentProtocol_init_def receiving_def)

lemma connected_protocol_fields:
  "prompts (connected_protocol ps inc) = ps"
  "incoming (connected_protocol ps inc) = inc"
  "now (connected_protocol ps inc) = 0"
  "slept (connected_protocol ps inc) = 0"
  "lag (connected_protocol ps inc) = example_lag"
  "io_log (connected_protocol ps inc) = []"
  "linebuf (connected_protocol ps inc) = []"
  "promptbuf (connected_protocol ps inc) = []"
  "build_handlers (connected_protocol ps inc) = Map.empty"
  "receiving (connected_protocol ps inc) = True"
  by (simp_all add: connected_protocol_def example_protocol_fields receiving_def)

lemma lag_wake_cycle: "lag (wake_cycle s) = lag s"
  by (simp add: wake_cycle_def time_sleep_def send_wakeup_def got_data_def Let_def
      split: list.splits)

lemma overrun_example_lag: "lag s = example_lag \<Longrightarrow> overrun s = 1 / 1000"
  by (simp add: overrun_def example_lag_def)

lemma funpow_example_lag:
  "lag s = example_lag \<Longrightarrow>
   lag ((wake_cycle ^^ k) s) = example_lag
   \<and> now ((wake_cycle ^^ k) s) = now s + of_nat k * (1001 / 1000)"
proof (induction k)
  case 0
  then show ?case by simp
next
  case (Suc k)
  then show ?case
    by (simp add: lag_wake_cycle now_wake_cycle overrun_example_lag algebra_simps)
qed

lemma now_after_cycles_example:
  "lag s = example_lag \<Longrightarrow> now (after_cycles k s) = now s + of_nat k * (1001 / 1000)"
  using funpow_example_lag [of "s\<lparr>promptbuf := []\<rparr>" k] by (simp add: after_cycles_def)

lemma prompt_after_eq:
  "prompt_after k s
     = match_prompt (prompts s) (if receiving s then concat (take k (incoming s)) else [])"
  using funpow_wake_cycle [of k "s\<lparr>promptbuf := []\<rparr>"]
  by (simp add: prompt_after_def after_cycles_def receiving_def)

lemma now_after_cycles_later: "0 < k \<Longrightarrow> now s + of_nat k < now (after_cycles k s)"
proof (induction k)
  case 0
  then show ?case by simp
next
  case (Suc k)
  have "now s + of_nat k \<le> now (after_cycles k s)"
  proof (cases "k = 0")
    case True
    then show ?thesis by (simp add: after_cycles_def)
  next
    case False
    with Suc.IH show ?thesis by simp
  qed
  moreover have "0 < overrun (after_cycles k s)" by (rule overrun_pos)
  ultimately show ?case by (simp add: now_after_cycles_Suc)
qed

text \<open>
  The clock is beyond \<^verbatim>\<open>starttime + k\<close> after \<open>k\<close> passes. So a call with a
  timeout of a whole number \<open>T\<close> of seconds makes no pass after pass \<open>T\<close> (and one pass
  when \<open>T\<close> is 0).
\<close>

lemma no_cycle_after_whole_timeout:
  assumes "cycle_is_run s (of_nat T) k"
  shows "k \<le> max T 1"
proof (rule ccontr)
  assume "\<not> k \<le> max T 1"
  then have k: "T < k" "1 < k" by simp_all
  define j where "j = max T 1"
  with k have j: "0 < j" "j < k" "T \<le> j" by simp_all
  with assms have "\<not> now (after_cycles j s) > now s + of_nat T"
    by (simp add: cycle_is_run_def)
  moreover have "now s + of_nat j < now (after_cycles j s)"
    using j(1) by (rule now_after_cycles_later)
  moreover have "(of_nat T :: rat) \<le> of_nat j"
    using j(3) by simp
  ultimately show False by simp
qed

text \<open>
  For instance, with a timeout of one second and the prompt arriving during the second
  pass, the call raises after its first pass.
\<close>

lemma wakeup_whole_second_example:
  "fst (wakeup (connected_protocol [''>''] [[], ''ab>'']) 1) = Inl InstrumentTimeoutException"
proof -
  let ?c = "connected_protocol [''>''] [[], ''ab>'']"
  from wakeup_passes [of ?c 1] obtain n where
    run: "cycle_is_run ?c 1 n" and
    outcome: "case prompt_after n ?c of
           Some item \<Rightarrow> fst (wakeup ?c 1) = Inr item
         | None \<Rightarrow> fst (wakeup ?c 1) = Inl InstrumentTimeoutException
                    \<and> now (after_cycles n ?c) > now ?c + 1"
    by blast
  from run have "cycle_is_run ?c (of_nat 1) n" by simp
  then have "n \<le> max 1 1" by (rule no_cycle_after_whole_timeout)
  moreover from run have "0 < n" by (simp add: cycle_is_run_def)
  ultimately have "n = 1" by simp
  then have "prompt_after n ?c = None"
    by (simp add: prompt_after_eq connected_protocol_fields match_prompt_def)
  with outcome show ?thesis by simp
qed

text \<open>
  The loop of \<^verbatim>\<open>_get_response\<close> with no prompt to look for: the call returns, and
  raises the timeout error.
\<close>

lemma get_response_no_prompts:
  "\<exists>s'. get_response (s\<lparr>prompts := []\<rparr>) timeout None
          = Some (Inl InstrumentTimeoutException, s')"
  by (simp add: get_response_def Let_def) (subst get_response_loop.simps, simp)

subsection \<open>Wakeup: a prompt or a timeout\<close>

text \<open>
  Claim C3, as stated: when the arriving bytes never make the prompt buffer end with a
  configured prompt, \<^verbatim>\<open>_wakeup(timeout)\<close> raises the timeout error within
  \<open>timeout\<close> + 1 s. It fails on a connected object with the prompt \<^verbatim>\<open>>\<close> to which
  nothing arrives and whose sleeps overrun by a millisecond each. With the timeout
  \<open>-5\<close> the call raises after its first pass, more than a second after it began and
  so later than \<open>-5 + 1\<close>. With the timeout 1.001 the first pass ends at 1.001, which is
  not beyond the deadline, and the call raises after the second pass, at 2.002, later
  than 1.001 + 1.
\<close>

theorem wakeup_later_than_timeout_plus_one:
  "fst (wakeup (connected_protocol [''>''] []) (- 5)) = Inl InstrumentTimeoutException
   \<and> now (connected_protocol [''>''] []) + (- 5) + 1
       < now (snd (wakeup (connected_protocol [''>''] []) (- 5)))
   \<and> fst (wakeup (connected_protocol [''>''] []) (1001 / 1000)) = Inl InstrumentTimeoutException
   \<and> now (connected_protocol [''>''] []) + 1001 / 1000 + 1
       < now (snd (wakeup (connected_protocol [''>''] []) (1001 / 1000)))"
proof -
  let ?c = "connected_protocol [''>''] []"
  have never: "\<And>t. \<forall>n. cycle_is_run ?c t n \<longrightarrow> prompt_after n ?c = None"
    by (simp add: prompt_after_eq connected_protocol_fields match_prompt_def)
  have a: "fst (wakeup ?c (- 5)) = Inl InstrumentTimeoutException
     \<and> now ?c + (- 5) + 1 < now (snd (wakeup ?c (- 5)))"
  proof -
    from wakeup_passes [of ?c "- 5"] never obtain n where
      n: "cycle_is_run ?c (- 5) n" "snd (wakeup ?c (- 5)) = after_cycles n ?c"
         "fst (wakeup ?c (- 5)) = Inl InstrumentTimeoutException"
      by (auto split: option.splits)
    from n(1) have "0 < n" by (simp add: cycle_is_run_def)
    then have "now ?c + of_nat n < now (after_cycles n ?c)" by (rule now_after_cycles_later)
    with n show ?thesis by (simp add: connected_protocol_fields)
  qed
  have b: "fst (wakeup ?c (1001 / 1000)) = Inl InstrumentTimeoutException
     \<and> now ?c + 1001 / 1000 + 1 < now (snd (wakeup ?c (1001 / 1000)))"
  proof -
    from wakeup_passes [of ?c "1001 / 1000"] never obtain n where
      n: "cycle_is_run ?c (1001 / 1000) n" "snd (wakeup ?c (1001 / 1000)) = after_cycles n ?c"
         "fst (wakeup ?c (1001 / 1000)) = Inl InstrumentTimeoutException"
         "now (after_cycles n ?c) > now ?c + 1001 / 1000"
      by (auto split: option.splits)
    have "n \<noteq> 0" "n \<noteq> 1"
      using n(1,4) by (auto simp: cycle_is_run_def now_after_cycles_example connected_protocol_fields)
    then have "2 \<le> n" by arith
    then have "(2::rat) \<le> of_nat n" by (metis of_nat_le_iff of_nat_numeral)
    then have "now ?c + 1001 / 1000 + 1 < now (after_cycles n ?c)"
      by (simp add: now_after_cycles_example connected_protocol_fields)
    with n show ?thesis by simp
  qed
  from a b show ?thesis by simp
qed

text \<open>
  Claim C3, amended. \<^verbatim>\<open>_wakeup(timeout)\<close> first clears the prompt buffer: what the
  buffer held before has no influence on the call, and after \<open>k\<close> passes the buffer
  holds the bytes that arrived during them and nothing older. If no pass that the call makes leaves
  the prompt buffer ending with a configured prompt, the call raises the timeout error
  at the end of the first pass that ends later than \<open>timeout\<close> after the call began;
  that pass began no later than \<open>max timeout 0\<close> after the call began, so the call
  ends within \<open>max timeout 0\<close> plus the second of its sleep plus the time by which
  that sleep overran. If a pass that the call makes leaves the prompt buffer ending with
  one or more configured prompts, the call returns then, and returns the first prompt, in
  the order of the configured list, that is a suffix of the prompt buffer.
\<close>

theorem wakeup_prompt_or_late:
  "wakeup (s\<lparr>promptbuf := b\<rparr>) timeout = wakeup s timeout
   \<and> promptbuf (after_cycles k s) = (if receiving s then concat (take k (incoming s)) else [])
   \<and> ((\<forall>n. cycle_is_run s timeout n \<longrightarrow> prompt_after n s = None) \<longrightarrow>
        (\<exists>n. cycle_is_run s timeout n
           \<and> wakeup s timeout = (Inl InstrumentTimeoutException, after_cycles n s)
           \<and> now s + timeout < now (after_cycles n s)
           \<and> now (after_cycles n s)
               \<le> now s + max timeout 0 + 1 + overrun (after_cycles (n - 1) s)))
   \<and> (cycle_is_run s timeout k \<longrightarrow> prompt_after k s = Some item \<longrightarrow>
        wakeup s timeout = (Inr item, after_cycles k s)
        \<and> (\<exists>i < length (prompts s).
              prompts s ! i = item
              \<and> suffix item (promptbuf (after_cycles k s))
              \<and> (\<forall>j < i. \<not> suffix (prompts s ! j) (promptbuf (after_cycles k s)))))"
proof (intro conjI impI)
  show "wakeup (s\<lparr>promptbuf := b\<rparr>) timeout = wakeup s timeout"
    by (simp add: wakeup_def)
next
  show "promptbuf (after_cycles k s) = (if receiving s then concat (take k (incoming s)) else [])"
    using funpow_wake_cycle [of k "s\<lparr>promptbuf := []\<rparr>"]
    by (simp add: after_cycles_def receiving_def)
next
  assume never: "\<forall>n. cycle_is_run s timeout n \<longrightarrow> prompt_after n s = None"
  from wakeup_passes [of s timeout] obtain n where
    run: "cycle_is_run s timeout n" and
    state: "snd (wakeup s timeout) = after_cycles n s" and
    outcome: "case prompt_after n s of
           Some item \<Rightarrow> fst (wakeup s timeout) = Inr item
         | None \<Rightarrow> fst (wakeup s timeout) = Inl InstrumentTimeoutException
                    \<and> now (after_cycles n s) > now s + timeout"
    by blast
  from never run have none: "prompt_after n s = None" by blast
  with outcome have raised: "fst (wakeup s timeout) = Inl InstrumentTimeoutException"
    and late: "now s + timeout < now (after_cycles n s)" by simp_all
  from raised state have result:
    "wakeup s timeout = (Inl InstrumentTimeoutException, after_cycles n s)"
    by (simp add: prod_eq_iff)
  from run have "0 < n" by (simp add: cycle_is_run_def)
  then obtain m where m: "n = Suc m" by (cases n) simp_all
  have began: "now (after_cycles m s) \<le> now s + max timeout 0"
  proof (cases "m = 0")
    case True
    then show ?thesis by (simp add: after_cycles_def)
  next
    case False
    with run m have "\<not> now (after_cycles m s) > now s + timeout"
      by (simp add: cycle_is_run_def)
    then show ?thesis by simp
  qed
  have "now (after_cycles n s) \<le> now s + max timeout 0 + 1 + overrun (after_cycles (n - 1) s)"
    using began by (simp add: m now_after_cycles_Suc)
  with run result late
  show "\<exists>n. cycle_is_run s timeout n
           \<and> wakeup s timeout = (Inl InstrumentTimeoutException, after_cycles n s)
           \<and> now s + timeout < now (after_cycles n s)
           \<and> now (after_cycles n s)
               \<le> now s + max timeout 0 + 1 + overrun (after_cycles (n - 1) s)"
    by blast
next
  assume run: "cycle_is_run s timeout k" and found: "prompt_after k s = Some item"
  from wakeup_passes [of s timeout] obtain n where
    n_run: "cycle_is_run s timeout n" and
    state: "snd (wakeup s timeout) = after_cycles n s" and
    outcome: "case prompt_after n s of
           Some item \<Rightarrow> fst (wakeup s timeout) = Inr item
         | None \<Rightarrow> fst (wakeup s timeout) = Inl InstrumentTimeoutException
                    \<and> now (after_cycles n s) > now s + timeout"
    by blast
  have "n = k"
  proof (rule ccontr)
    assume "n \<noteq> k"
    then consider "n < k" | "k < n" by arith
    then show False
    proof cases
      case 1
      moreover from n_run have "0 < n" by (simp add: cycle_is_run_def)
      ultimately have "prompt_after n s = None \<and> \<not> now (after_cycles n s) > now s + timeout"
        using run by (simp add: cycle_is_run_def)
      with outcome show False by simp
    next
      case 2
      moreover from run have "0 < k" by (simp add: cycle_is_run_def)
      ultimately have "prompt_after k s = None"
        using n_run by (simp add: cycle_is_run_def)
      with found show False by simp
    qed
  qed
  with outcome found state show "wakeup s timeout = (Inr item, after_cycles k s)"
    by (simp add: prod_eq_iff)
  from found show "\<exists>i < length (prompts s).
              prompts s ! i = item
              \<and> suffix item (promptbuf (after_cycles k s))
              \<and> (\<forall>j < i. \<not> suffix (prompts s ! j) (promptbuf (after_cycles k s)))"
    by (auto simp: prompt_after_def match_prompt_def find_Some_iff)
qed

theorem wakeup_prompt_or_late_witness:
  "cycle_is_run (connected_protocol [''$'', ''>''] [[], ''ab>'']) 10 2
   \<and> prompt_after 2 (connected_protocol [''$'', ''>''] [[], ''ab>'']) = Some ''>''
   \<and> wakeup (connected_protocol [''$'', ''>''] [[], ''ab>'']) 10
       = (Inr ''>'', after_cycles 2 (connected_protocol [''$'', ''>''] [[], ''ab>'']))
   \<and> fst (wakeup (connected_protocol [''>''] [''ab'']) 2) = Inl InstrumentTimeoutException
   \<and> now (connected_protocol [''>''] [''ab'']) + 2
       < now (snd (wakeup (connected_protocol [''>''] [''ab'']) 2))"
proof -
  let ?r = "connected_protocol [''$'', ''>''] [[], ''ab>'']"
  let ?t = "connected_protocol [''>''] [''ab'']"
  have one: "{Suc 0..<2} = {Suc 0}" by auto
  have run: "cycle_is_run ?r 10 2"
    by (simp add: cycle_is_run_def one prompt_after_eq now_after_cycles_example
        connected_protocol_fields match_prompt_def)
  have found: "prompt_after 2 ?r = Some ''>''"
    by (simp add: prompt_after_eq connected_protocol_fields match_prompt_def suffix_to_prefix)
  have never: "\<forall>n. cycle_is_run ?t 2 n \<longrightarrow> prompt_after n ?t = None"
  proof (intro allI impI)
    fix n
    show "prompt_after n ?t = None"
      by (cases n)
         (simp_all add: prompt_after_eq connected_protocol_fields match_prompt_def
            suffix_to_prefix)
  qed
  from wakeup_prompt_or_late [where s = ?r and timeout = 10 and k = 2 and item = "''>''"] run found
  have a: "wakeup ?r 10 = (Inr ''>'', after_cycles 2 ?r)" by blast
  from wakeup_prompt_or_late [where s = ?t and timeout = 2] never
  obtain n where "wakeup ?t 2 = (Inl InstrumentTimeoutException, after_cycles n ?t)"
    "now ?t + 2 < now (after_cycles n ?t)" by blast
  then have b: "fst (wakeup ?t 2) = Inl InstrumentTimeoutException
     \<and> now ?t + 2 < now (snd (wakeup ?t 2))" by simp
  from run found a b show ?thesis by simp
qed

subsection \<open>ParameterDictVal.update\<close>

text \<open>
  Claim C4. For every descriptor \<open>d\<close> and input text \<open>t\<close>, \<^verbatim>\<open>d.update(t)\<close>
  returns the name of \<open>d\<close> if and only if the compiled pattern of \<open>d\<close> matches \<open>t\<close>;
  on a match the descriptor is unchanged but for its value, which is the extraction
  function applied to the match; without a match the descriptor is unchanged and
  \<^verbatim>\<open>False\<close> is returned.
\<close>

theorem update_iff_match:
  "(fst (update d t) = PyStr (name d) \<longleftrightarrow> regex d t \<noteq> None)
   \<and> (\<forall>m. regex d t = Some m \<longrightarrow>
          update d t = (PyStr (name d), d\<lparr>pvalue := f_getval d m\<rparr>)
          \<and> pvalue (snd (update d t)) = f_getval d m)
   \<and> (regex d t = None \<longrightarrow> update d t = (PyBool False, d))"
  by (simp add: update_def split: option.splits)

theorem update_iff_match_witness:
  "regex example_descriptor ''Vol: 150'' = Some [''Vol: 150'', ''150'']
   \<and> fst (update example_descriptor ''Vol: 150'') = PyStr ''vol''
   \<and> pvalue (snd (update example_descriptor ''Vol: 150'')) = PyStr ''150''
   \<and> regex example_descriptor ''Rate: 100'' = None
   \<and> update example_descriptor ''Rate: 100'' = (PyBool False, example_descriptor)"
  using update_iff_match [of example_descriptor "''Vol: 150''"]
        update_iff_match [of example_descriptor "''Rate: 100''"]
  by (simp add: example_descriptor_def ParameterDictVal_init_def Let_def)

subsection \<open>Commands without a builder\<close>

text \<open>
  Claim C2. For every command id without a registered builder, \<^verbatim>\<open>_do_cmd_resp\<close>
  raises the protocol error with the code for a bad driver command and returns the object
  as it was: the log of wake signals, transmissions and suspensions, the clock, the
  buffers and the pending transport data are those of before the call, for all arguments,
  timeouts, expected prompts and buffer contents.
\<close>

theorem do_cmd_resp_bad_command:
  "build_handlers s cmd = None \<Longrightarrow>
   do_cmd_resp s cmd args timeout expected_prompt
     = Some (Inl (InstrumentProtocolException BAD_DRIVER_COMMAND), s)"
  by (simp add: do_cmd_resp_def)

theorem do_cmd_resp_bad_command_witness:
  "build_handlers (connected_protocol [''>''] [''>'']) ''capacity'' = None
   \<and> do_cmd_resp (connected_protocol [''>''] [''>'']) ''capacity'' [PyInt 1] 10 None
       = Some (Inl (InstrumentProtocolException BAD_DRIVER_COMMAND),
               connected_protocol [''>''] [''>''])
   \<and> io_log (connected_protocol [''>''] [''>'']) = []"
proof -
  have h: "build_handlers (connected_protocol [''>''] [''>'']) ''capacity'' = None"
    by (simp add: connected_protocol_fields)
  show ?thesis
    using h do_cmd_resp_bad_command [OF h, of "[PyInt 1]" 10 None]
    by (simp add: connected_protocol_fields)
qed

subsection \<open>The empty prompt\<close>

text \<open>
  Claim C10. The empty string is a suffix of every buffer. So \<^verbatim>\<open>_get_response\<close>
  with the empty string as the expected prompt returns at once, in every state, the pair
  of the empty string and the line buffer, leaving the object as it was (no sleep, no
  timeout error); and when the configured prompts contain the empty string,
  \<^verbatim>\<open>_wakeup\<close> returns a prompt on the check of its first pass.
\<close>

theorem empty_prompt_always_matches:
  "get_response s timeout (Some []) = Some (Inr ([], linebuf s), s)
   \<and> ([] \<in> set (prompts s) \<longrightarrow>
        (\<exists>item. wakeup s timeout = (Inr item, after_cycles 1 s)))"
proof
  show "get_response s timeout (Some []) = Some (Inr ([], linebuf s), s)"
    by (simp add: get_response_def Let_def) (subst get_response_loop.simps, simp)
next
  show "[] \<in> set (prompts s) \<longrightarrow> (\<exists>item. wakeup s timeout = (Inr item, after_cycles 1 s))"
  proof
    assume e: "[] \<in> set (prompts s)"
    let ?s0 = "s\<lparr>promptbuf := []\<rparr>"
    have "match_prompt (prompts ?s0) (promptbuf (wake_cycle ?s0)) \<noteq> None"
      using e by (auto simp: match_prompt_def find_None_iff)
    then obtain item where "match_prompt (prompts ?s0) (promptbuf (wake_cycle ?s0)) = Some item"
      by blast
    then have "wakeup s timeout = (Inr item, after_cycles 1 s)"
      by (simp add: wakeup_def Let_def after_cycles_def) (subst wakeup_loop_unfold, simp)
    then show "\<exists>item. wakeup s timeout = (Inr item, after_cycles 1 s)" by blast
  qed
qed

theorem empty_prompt_always_matches_witness:
  "[] \<in> set (prompts (connected_protocol [''>'', []] [''ab'']))
   \<and> wakeup (connected_protocol [''>'', []] [''ab'']) 0
       = (Inr [], after_cycles 1 (connected_protocol [''>'', []] [''ab'']))"
proof -
  let ?s = "connected_protocol [''>'', []] [''ab'']"
  have h: "[] \<in> set (prompts ?s)"
    by (simp add: connected_protocol_fields)
  from empty_prompt_always_matches [of ?s 0] h
  obtain item where w: "wakeup ?s 0 = (Inr item, after_cycles 1 ?s)" by blast
  have found: "prompt_after 1 ?s = Some []"
    by (simp add: prompt_after_eq connected_protocol_fields match_prompt_def suffix_to_prefix)
  then have "match_prompt (prompts (?s\<lparr>promptbuf := []\<rparr>))
      (promptbuf (wake_cycle (?s\<lparr>promptbuf := []\<rparr>))) = Some []"
    by (simp add: prompt_after_def after_cycles_def)
  then have "fst (wakeup ?s 0) = Inr []"
    by (simp add: wakeup_def Let_def) (subst wakeup_loop_unfold, simp)
  with w h show ?thesis by simp
qed

subsection \<open>configure\<close>

text \<open>
  Claim C1. For the methods \<^verbatim>\<open>ethernet\<close> and \<^verbatim>\<open>slow_ethernet\<close>,
  \<^verbatim>\<open>configure\<close> should build the transport handle and its client and return the
  success marker, and for every other method raise the connection error and leave the
  handles alone. With the method \<^verbatim>\<open>ethernet\<close> and all endpoint keys present, the
  code builds the handle and the client and then raises the connection error: the
  \<^verbatim>\<open>else\<close> of the chain that begins with the test for \<^verbatim>\<open>slow_ethernet\<close> is run
  for \<^verbatim>\<open>ethernet\<close> too.
\<close>

theorem configure_ethernet_raises:
  "configure (CommandResponseInstrumentProtocol_init [''>''] ''\<newline>'' 0 [] example_lag)
     (example_config ''ethernet'')
     = (Inl InstrumentConnectionException,
        (CommandResponseInstrumentProtocol_init [''>''] ''\<newline>'' 0 [] example_lag)
          \<lparr>logger := Some \<lparr>device_addr = PyStr ''10.0.0.5'', device_port = PyInt 4001,
                             logger_server_port = PyInt 8888, write_delay = 0, pid = None\<rparr>,
           logger_client := Some \<lparr>server_addr = PyStr ''localhost'', server_port = PyInt 8888,
                                    callback_registered = False\<rparr>\<rparr>)"
  by (simp add: configure_def build_ethernet_def getitem_def example_config_def)

text \<open>
  The rest of the claim holds: \<^verbatim>\<open>slow_ethernet\<close> builds both handles and returns
  the success marker, and a method other than the two Ethernet ones raises the connection
  error with the object unchanged.
\<close>

lemma configure_slow_ethernet:
  "configure (CommandResponseInstrumentProtocol_init ps ''\<newline>'' 0 inc example_lag)
     (example_config ''slow_ethernet'')
     = (Inr OK, example_protocol ps inc)"
  by (simp add: configure_def build_ethernet_def getitem_def example_config_def
      example_protocol_def CommandResponseInstrumentProtocol_init_def)

lemma configure_other_method:
  "config ''method'' = Some m \<Longrightarrow> m \<noteq> PyStr ''ethernet'' \<Longrightarrow>
   m \<noteq> PyStr ''slow_ethernet'' \<Longrightarrow>
   configure s config = (Inl InstrumentConnectionException, s)"
  by (simp add: configure_def getitem_def)

subsection \<open>connect\<close>

text \<open>
  Claim C5. When the pid query finds no transport process, \<^verbatim>\<open>connect\<close> should
  launch the process, attach the data callback and return the pid of the launched
  process. On a configured object whose handle has no pid, with the system giving the
  pid 4242 to the launched process, the code launches it (the handle then reports 4242)
  and registers the callback, and returns \<^verbatim>\<open>None\<close>: the value returned is the
  result of the query made before the launch.
\<close>

theorem connect_returns_stale_pid:
  "map_option get_pid (logger (example_protocol [''>''] [])) = Some None
   \<and> fst (connect 4242 (example_protocol [''>''] [])) = Inr None
   \<and> map_option get_pid (logger (snd (connect 4242 (example_protocol [''>''] [])))) = Some (Some 4242)
   \<and> map_option callback_registered (logger_client (snd (connect 4242 (example_protocol [''>''] []))))
       = Some True"
  by (simp add: connect_def attach_def get_pid_def launch_process_def init_comms_def
      time_sleep_def receiving_def Let_def example_protocol_def
      CommandResponseInstrumentProtocol_init_def)

subsection \<open>Writing and reading a parameter\<close>

text \<open>
  Claim C6. After \<^verbatim>\<open>_set_param_dict(n, v)\<close> on a registered name,
  \<^verbatim>\<open>_get_param_dict(n)\<close> should return \<open>v\<close>, with a descriptor still under every
  name. With the name \<^verbatim>\<open>vol\<close> registered and holding 150, the read returns 150;
  after the write of 5 the entry under \<^verbatim>\<open>vol\<close> is the plain value 5 and not a
  descriptor, and the read raises the attribute error for \<^verbatim>\<open>value\<close>.
\<close>

theorem set_param_dict_breaks_get:
  "get_param_dict
     (add_param_dict (example_protocol [''>''] []) ''vol'' ''Vol: (.*)''
        (regex example_descriptor) (f_getval example_descriptor) (f_format example_descriptor)
        (PyInt 150)) ''vol'' = Inr (PyInt 150)
   \<and> get_param_dict
       (set_param_dict
          (add_param_dict (example_protocol [''>''] []) ''vol'' ''Vol: (.*)''
             (regex example_descriptor) (f_getval example_descriptor)
             (f_format example_descriptor) (PyInt 150))
          ''vol'' (PyInt 5)) ''vol'' = Inl (AttributeError ''value'')"
  by (simp add: get_param_dict_def set_param_dict_def add_param_dict_def ParameterDictVal_init_def)

subsection \<open>Commands without a response\<close>

text \<open>
  Claim C7. For a command with a registered builder, \<^verbatim>\<open>_do_cmd_no_resp\<close> should,
  after a successful wakeup, clear the line buffer and the prompt buffer, transmit the
  built string and return the success marker. On a connected object with the prompt
  \<^verbatim>\<open>>\<close> configured,
  a builder for \<^verbatim>\<open>capacity\<close> and a device that answers the first wake signal with
  \<^verbatim>\<open>ready>\<close>, the code transmits the built string and returns the success marker
  with the line buffer empty, but the prompt buffer still holds \<^verbatim>\<open>ready>\<close>.
\<close>

theorem do_cmd_no_resp_keeps_promptbuf:
  "do_cmd_no_resp (add_build_handler (connected_protocol [''>''] [''ready>'']) ''capacity'' example_builder)
      ''capacity'' [] 10
     = (Inr OK,
        (add_build_handler (connected_protocol [''>''] [''ready>'']) ''capacity'' example_builder)
          \<lparr>linebuf := [], promptbuf := ''ready>'', now := 1001 / 1000, slept := 1,
           incoming := [],
           io_log := [WakeSignal, Slept 1, Sent ''capacity\<newline>'']\<rparr>)"
proof -
  let ?s = "add_build_handler (connected_protocol [''>''] [''ready>'']) ''capacity'' example_builder"
  have w: "wakeup ?s 10
     = (Inr ''>'', ?s\<lparr>linebuf := ''ready>'', promptbuf := ''ready>'', now := 1001 / 1000,
                       slept := 1, incoming := [], io_log := [WakeSignal, Slept 1]\<rparr>)"
    unfolding wakeup_def Let_def
    by (subst wakeup_loop_unfold)
       (simp add: add_build_handler_def connected_protocol_def example_protocol_def
          CommandResponseInstrumentProtocol_init_def wake_cycle_def time_sleep_def
          send_wakeup_def got_data_def match_prompt_def Let_def suffix_to_prefix
          receiving_def overrun_def example_lag_def)
  have b: "build_handlers ?s ''capacity'' = Some example_builder"
    by (simp add: add_build_handler_def)
  show ?thesis
    by (simp add: do_cmd_no_resp_def b w client_send_def example_builder_def)
       (simp add: add_build_handler_def connected_protocol_def example_protocol_def
          CommandResponseInstrumentProtocol_init_def)
qed

subsection \<open>run_script\<close>

text \<open>
  Claim C8. \<^verbatim>\<open>run_script\<close> on the script \<^verbatim>\<open>S=^C\<close>, \<^verbatim>\<open>D=0.5\<close>,
  \<^verbatim>\<open>S=1\<close> (one command per line) should send a control-C, sleep 0.5 s and send
  \<^verbatim>\<open>1\<close> with the line terminator. The code returns \<^verbatim>\<open>None\<close> and leaves the
  object as it was, for every object: nothing is sent, and there is no suspension.
\<close>

theorem run_script_does_nothing:
  "run_script s ''S=^C\<newline>D=0.5\<newline>S=1'' = (PyNone, s)
   \<and> io_log (snd (run_script s ''S=^C\<newline>D=0.5\<newline>S=1'')) = io_log s"
  by (simp add: run_script_def)

subsection \<open>get_resource_commands\<close>

text \<open>
  Claim C9, as stated: \<^verbatim>\<open>get_resource_commands()\<close> returns exactly the command ids
  that have a registered builder. It fails on an object of the class itself with a
  builder registered for \<^verbatim>\<open>capacity\<close>: the result is the one name
  \<^verbatim>\<open>execute_direct\<close>.
\<close>

theorem resource_commands_not_builders:
  "set (get_resource_commands
          (add_build_handler (example_protocol [''>''] []) ''capacity'' example_builder))
     \<noteq> dom (build_handlers
          (add_build_handler (example_protocol [''>''] []) ''capacity'' example_builder))"
  by (simp add: get_resource_commands_def add_build_handler_def example_protocol_def
      CommandResponseInstrumentProtocol_init_def CommandResponseInstrumentProtocol_dir_def)

text \<open>
  Claim C9, amended: \<^verbatim>\<open>get_resource_commands()\<close> returns exactly the attribute
  names of the protocol object that begin with \<^verbatim>\<open>execute_\<close>, and registering a
  builder through \<^verbatim>\<open>_add_build_handler\<close> does not change the result.
\<close>

theorem resource_commands_by_prefix:
  "get_resource_commands (add_build_handler s cmd func) = get_resource_commands s
   \<and> (c \<in> set (get_resource_commands s))
       = (c \<in> set (dir_self s) \<and> prefix ''execute_'' c)"
  by (auto simp: get_resource_commands_def add_build_handler_def)

end
